theory Spec2Isabelle
  imports Main "HOL-Library.Word"
begin

unbundle bit_operations_syntax

section \<open>Conjure client (tapdance/conjure.go): data model\<close>

text \<open>
  The development embeds the registration and rendezvous code of
  \<^verbatim>\<open>src/tapdance/conjure.go\<close>. Go values are modelled as follows.
  \<^item> \<^verbatim>\<open>[]byte\<close> is a list of 8-bit words; where the code tests a slice
    against \<^verbatim>\<open>nil\<close> (only \<^verbatim>\<open>SharedSecret\<close>) the field is an option and
    \<open>None\<close> is the nil slice.
  \<^item> A pointer that the code tests or dereferences is an option, \<open>None\<close> being
    \<^verbatim>\<open>nil\<close>; a dereference of \<open>None\<close> is the outcome \<open>Panics NilDereference\<close>.
  \<^item> \<^verbatim>\<open>uint\<close> values that are only compared or counted upwards below a slice
    length (\<^verbatim>\<open>Width\<close>, \<^verbatim>\<open>transport\<close>, error codes, loop counters) are
    natural numbers: no operation on them can wrap. \<^verbatim>\<open>SessionID\<close> is a 64-bit word,
    conversions to \<^verbatim>\<open>uint16\<close> are written as conversions to a 16-bit word.
  \<^item> Two field names are primed because the unprimed words are reserved in Isabelle:
    \<open>include'\<close> is \<^verbatim>\<open>V6.include\<close> and \<open>Phantom'\<close> is
    \<^verbatim>\<open>ConjureSession.Phantom\<close>; \<open>sessionStats\<close> is \<^verbatim>\<open>ConjureSession.stats\<close>.
  \<^item> A call either returns, panics, or never returns (blocked on a channel that is
    never closed, or a loop that does not end): type \<open>outcome\<close>.
\<close>

type_synonym byte = "8 word"
type_synonym u32 = "32 word"

datatype panic = NilDereference | DivisionByZero | IndexOutOfRange | SliceOutOfRange

datatype 'a outcome = Returns 'a | Panics panic | Hangs

text \<open>\<^verbatim>\<open>RegError\<close> and its codes (the \<^verbatim>\<open>iota\<close> block at the end of the file).\<close>

datatype RegError = RegError (code: nat) (msg: string)

definition Unreachable :: nat where "Unreachable = 0"
definition DialFailure :: nat where "DialFailure = 1"
definition NotImplemented :: nat where "NotImplemented = 2"
definition Unknown :: nat where "Unknown = 3"

text \<open>
  Values of the interface type \<^verbatim>\<open>error\<close>. The dynamic type matters to the type
  assertion \<^verbatim>\<open>err.(RegError)\<close> in \<^verbatim>\<open>register\<close>: \<open>RegErrorVal\<close> is a
  \<^verbatim>\<open>RegError\<close> value (what \<^verbatim>\<open>send\<close> posts), \<open>RegErrorPtr\<close> is a
  \<^verbatim>\<open>*RegError\<close> (what \<^verbatim>\<open>register\<close> returns), \<open>ErrorString\<close> is an error made
  by \<^verbatim>\<open>fmt.Errorf\<close>, \<open>OtherError\<close> any error of a library.
\<close>

datatype goerror =
    ErrorString string
  | RegErrorVal RegError
  | RegErrorPtr RegError
  | OtherError string

text \<open>The transports (the \<^verbatim>\<open>iota\<close> block after \<^verbatim>\<open>ConjureSession\<close>).\<close>

definition MinTransport :: nat where "MinTransport = 0"
definition NullTransport :: nat where "NullTransport = 1"
definition Obfs4Transport :: nat where "Obfs4Transport = 2"

text \<open>The address families \<^verbatim>\<open>v4\<close>, \<^verbatim>\<open>v6\<close>, \<^verbatim>\<open>both\<close>.\<close>

definition v4 :: nat where "v4 = 0"
definition v6 :: nat where "v6 = 1"
definition both :: nat where "both = 2"

record V6 =
  support :: bool
  include' :: nat

record sharedKeys =
  SharedSecret :: "byte list option"
  Representative :: "byte list"
  FspKey :: "byte list"
  FspIv :: "byte list"
  VspKey :: "byte list"
  VspIv :: "byte list"
  NewMasterSecret :: "byte list"
  ConjureSeed :: "byte list"

text \<open>
  \<^verbatim>\<open>pb.TLSDecoySpec\<close> and \<^verbatim>\<open>pb.SessionStats\<close> are generated protobuf types; only
  the fields this file reads are kept. \<^verbatim>\<open>net.IP\<close> is a byte slice, \<^verbatim>\<open>net.Conn\<close>
  is identified by a number.
\<close>

record TLSDecoySpec =
  Hostname :: string
  IpAddrStr :: string

record SessionStats =
  TcpToDecoy :: "u32 option"
  TlsToDecoy :: "u32 option"

type_synonym IP = "byte list"
type_synonym conn = nat

record ConjureSession =
  Keys :: "sharedKeys option"
  Width :: nat
  V6Support :: "V6 option"
  UseProxyHeader :: bool
  SessionID :: "64 word"
  RegDecoys :: "TLSDecoySpec option list"
  Phantom' :: "IP option"
  Transport :: nat
  CovertAddress :: string
  sessionStats :: "SessionStats option"

record ConjureReg =
  seed :: "byte list"
  sessionIDStr :: string
  phantom :: "IP option"
  useProxyHeader :: bool
  covertAddress :: string
  phantomSNI :: string
  v6Support :: bool
  transport :: nat
  stats :: "SessionStats option"
  keys :: "sharedKeys option"

text \<open>A nil slice used as data is the empty slice.\<close>

definition bytes :: "byte list option \<Rightarrow> byte list" where
  "bytes s = (case s of None \<Rightarrow> [] | Some b \<Rightarrow> b)"

section \<open>Library functions the code calls\<close>

subsection \<open>\<^verbatim>\<open>strconv.FormatUint\<close>, \<^verbatim>\<open>%d\<close> and \<^verbatim>\<open>hex.Encode\<close>\<close>

definition digit_char :: "nat \<Rightarrow> char" where
  "digit_char d = ''0123456789abcdefghijklmnopqrstuvwxyz'' ! d"

fun nat_digits :: "nat \<Rightarrow> nat \<Rightarrow> string" where
  "nat_digits b n =
     (if n < b \<or> b < 2 then [digit_char n]
      else nat_digits b (n div b) @ [digit_char (n mod b)])"

declare nat_digits.simps [simp del]

definition FormatUint :: "64 word \<Rightarrow> nat \<Rightarrow> string" where
  "FormatUint i base = nat_digits base (unat i)"

text \<open>\<^verbatim>\<open>fmt.Sprintf("%d", i)\<close> for an unsigned \<open>i\<close>.\<close>

definition decimal :: "nat \<Rightarrow> string" where
  "decimal i = nat_digits 10 i"

definition hex_Encode :: "byte list \<Rightarrow> string" where
  "hex_Encode src =
     concat (map (\<lambda>v. [digit_char (unat (drop_bit 4 v)), digit_char (unat (v AND 0x0f))]) src)"

text \<open>The conversion \<^verbatim>\<open>[]byte(str)\<close>.\<close>

definition bytes_of :: "string \<Rightarrow> byte list" where
  "bytes_of s = map (\<lambda>c. of_nat (of_char c)) s"

subsection \<open>\<^verbatim>\<open>crypto/sha256\<close> and \<^verbatim>\<open>crypto/hmac\<close>\<close>

text \<open>
  \<^verbatim>\<open>conjureHMAC\<close> calls \<^verbatim>\<open>hmac.New(sha256.New, key)\<close>. Both are Go's standard
  library; they are written out here after FIPS 180-4 and RFC 2104, which the library
  implements, so that the length and the value of a tag are facts about a function and
  not assumptions.
\<close>

definition rotr :: "nat \<Rightarrow> u32 \<Rightarrow> u32" where
  "rotr n x = (drop_bit n x) OR (push_bit (32 - n) x)"

definition Ch :: "u32 \<Rightarrow> u32 \<Rightarrow> u32 \<Rightarrow> u32" where
  "Ch x y z = (x AND y) XOR (NOT x AND z)"

definition Maj :: "u32 \<Rightarrow> u32 \<Rightarrow> u32 \<Rightarrow> u32" where
  "Maj x y z = (x AND y) XOR (x AND z) XOR (y AND z)"

definition bsig0 :: "u32 \<Rightarrow> u32" where
  "bsig0 x = rotr 2 x XOR rotr 13 x XOR rotr 22 x"

definition bsig1 :: "u32 \<Rightarrow> u32" where
  "bsig1 x = rotr 6 x XOR rotr 11 x XOR rotr 25 x"

definition ssig0 :: "u32 \<Rightarrow> u32" where
  "ssig0 x = rotr 7 x XOR rotr 18 x XOR drop_bit 3 x"

definition ssig1 :: "u32 \<Rightarrow> u32" where
  "ssig1 x = rotr 17 x XOR rotr 19 x XOR drop_bit 10 x"

text \<open>The round constants \<^verbatim>\<open>_K\<close>, eight rounds to a row.\<close>

definition sha256_K_row0 :: "u32 list" where
  "sha256_K_row0 =
   [0x428a2f98, 0x71374491, 0xb5c0fbcf, 0xe9b5dba5, 0x3956c25b, 0x59f111f1, 0x923f82a4, 0xab1c5ed5]"

definition sha256_K_row1 :: "u32 list" where
  "sha256_K_row1 =
   [0xd807aa98, 0x12835b01, 0x243185be, 0x550c7dc3, 0x72be5d74, 0x80deb1fe, 0x9bdc06a7, 0xc19bf174]"

definition sha256_K_row2 :: "u32 list" where
  "sha256_K_row2 =
   [0xe49b69c1, 0xefbe4786, 0x0fc19dc6, 0x240ca1cc, 0x2de92c6f, 0x4a7484aa, 0x5cb0a9dc, 0x76f988da]"

definition sha256_K_row3 :: "u32 list" where
  "sha256_K_row3 =
   [0x983e5152, 0xa831c66d, 0xb00327c8, 0xbf597fc7, 0xc6e00bf3, 0xd5a79147, 0x06ca6351, 0x14292967]"

definition sha256_K_row4 :: "u32 list" where
  "sha256_K_row4 =
   [0x27b70a85, 0x2e1b2138, 0x4d2c6dfc, 0x53380d13, 0x650a7354, 0x766a0abb, 0x81c2c92e, 0x92722c85]"

definition sha256_K_row5 :: "u32 list" where
  "sha256_K_row5 =
   [0xa2bfe8a1, 0xa81a664b, 0xc24b8b70, 0xc76c51a3, 0xd192e819, 0xd6990624, 0xf40e3585, 0x106aa070]"

definition sha256_K_row6 :: "u32 list" where
  "sha256_K_row6 =
   [0x19a4c116, 0x1e376c08, 0x2748774c, 0x34b0bcb5, 0x391c0cb3, 0x4ed8aa4a, 0x5b9cca4f, 0x682e6ff3]"

definition sha256_K_row7 :: "u32 list" where
  "sha256_K_row7 =
   [0x748f82ee, 0x78a5636f, 0x84c87814, 0x8cc70208, 0x90befffa, 0xa4506ceb, 0xbef9a3f7, 0xc67178f2]"

definition sha256_K :: "u32 list" where
  "sha256_K = sha256_K_row0 @ sha256_K_row1 @ sha256_K_row2 @ sha256_K_row3
               @ sha256_K_row4 @ sha256_K_row5 @ sha256_K_row6 @ sha256_K_row7"

type_synonym sha_state = "u32 \<times> u32 \<times> u32 \<times> u32 \<times> u32 \<times> u32 \<times> u32 \<times> u32"

definition sha256_init :: sha_state where
  "sha256_init = (0x6a09e667, 0xbb67ae85, 0x3c6ef372, 0xa54ff53a,
                  0x510e527f, 0x9b05688c, 0x1f83d9ab, 0x5be0cd19)"

definition be32 :: "byte list \<Rightarrow> u32" where
  "be32 p = push_bit 24 (ucast (p ! 0)) OR push_bit 16 (ucast (p ! 1))
            OR push_bit 8 (ucast (p ! 2)) OR ucast (p ! 3)"

definition put_be32 :: "u32 \<Rightarrow> byte list" where
  "put_be32 w = [ucast (drop_bit 24 w), ucast (drop_bit 16 w), ucast (drop_bit 8 w), ucast w]"

definition put_be64 :: "64 word \<Rightarrow> byte list" where
  "put_be64 w = map (\<lambda>i. ucast (drop_bit (8 * (7 - i)) w)) [0..<8]"

fun block_words :: "nat \<Rightarrow> byte list \<Rightarrow> u32 list" where
  "block_words 0 p = []"
| "block_words (Suc n) p = be32 (take 4 p) # block_words n (drop 4 p)"

fun schedule :: "nat \<Rightarrow> u32 list \<Rightarrow> u32 list" where
  "schedule 0 w = w"
| "schedule (Suc n) w =
     (let i = length w;
          v = ssig1 (w ! (i - 2)) + w ! (i - 7) + ssig0 (w ! (i - 15)) + w ! (i - 16)
      in schedule n (w @ [v]))"

fun sha_round :: "sha_state \<Rightarrow> u32 \<times> u32 \<Rightarrow> sha_state" where
  "sha_round (a, b, c, d, e, f, g, h) (k, w) =
     (let t1 = h + bsig1 e + Ch e f g + k + w;
          t2 = bsig0 a + Maj a b c
      in (t1 + t2, a, b, c, d + t1, e, f, g))"

fun sha_add :: "sha_state \<Rightarrow> sha_state \<Rightarrow> sha_state" where
  "sha_add (a, b, c, d, e, f, g, h) (a', b', c', d', e', f', g', h') =
     (a + a', b + b', c + c', d + d', e + e', f + f', g + g', h + h')"

definition sha_block :: "sha_state \<Rightarrow> byte list \<Rightarrow> sha_state" where
  "sha_block st p =
     sha_add st (foldl sha_round st (zip sha256_K (schedule 48 (block_words 16 p))))"

fun sha_blocks :: "nat \<Rightarrow> sha_state \<Rightarrow> byte list \<Rightarrow> sha_state" where
  "sha_blocks 0 st p = st"
| "sha_blocks (Suc n) st p = sha_blocks n (sha_block st (take 64 p)) (drop 64 p)"

text \<open>Padding: the byte \<^verbatim>\<open>0x80\<close>, zeros up to 56 modulo 64, the bit length on 64 bits.\<close>

definition sha_pad :: "byte list \<Rightarrow> byte list" where
  "sha_pad m = m @ [0x80] @ replicate ((119 - length m mod 64) mod 64) 0
               @ put_be64 (of_nat (8 * length m))"

fun sha_out :: "sha_state \<Rightarrow> byte list" where
  "sha_out (a, b, c, d, e, f, g, h) =
     put_be32 a @ put_be32 b @ put_be32 c @ put_be32 d @
     put_be32 e @ put_be32 f @ put_be32 g @ put_be32 h"

definition sha256 :: "byte list \<Rightarrow> byte list" where
  "sha256 m = (let p = sha_pad m in sha_out (sha_blocks (length p div 64) sha256_init p))"

definition hmac_sha256 :: "byte list \<Rightarrow> byte list \<Rightarrow> byte list" where
  "hmac_sha256 key m =
     (let k = (if length key > 64 then sha256 key else key);
          k' = k @ replicate (64 - length k) 0;
          ipad = map (\<lambda>b. b XOR 0x36) k';
          opad = map (\<lambda>b. b XOR 0x5c) k'
      in sha256 (opad @ sha256 (ipad @ m)))"

subsection \<open>\<^verbatim>\<open>math/big\<close>\<close>

text \<open>
  \<^verbatim>\<open>(*big.Int).SetBytes\<close> reads a big-endian unsigned integer, \<^verbatim>\<open>Abs\<close> is the
  absolute value, \<^verbatim>\<open>Mod\<close> is the Euclidean modulus and panics on a zero modulus.
\<close>

definition big_SetBytes :: "byte list \<Rightarrow> int" where
  "big_SetBytes buf = foldl (\<lambda>acc b. 256 * acc + uint b) 0 buf"

definition big_Abs :: "int \<Rightarrow> int" where
  "big_Abs x = \<bar>x\<bar>"

definition big_Mod :: "int \<Rightarrow> int \<Rightarrow> int outcome" where
  "big_Mod x y = (if y = 0 then Panics DivisionByZero else Returns (x mod \<bar>y\<bar>))"

section \<open>\<^verbatim>\<open>ConjureSession.IDString\<close>\<close>

definition IDString :: "ConjureSession \<Rightarrow> string" where
  "IDString cjSession =
     (case Keys cjSession of
        None \<Rightarrow> ''['' @ FormatUint (SessionID cjSession) 10 @ ''-000000]''
      | Some ks \<Rightarrow>
         (case SharedSecret ks of
            None \<Rightarrow> ''['' @ FormatUint (SessionID cjSession) 10 @ ''-000000]''
          | Some sharedSecret \<Rightarrow>
             (let secret = hex_Encode sharedSecret;
                  n = length secret
              in if n < 6
                 then ''['' @ FormatUint (SessionID cjSession) 10 @ ''-000000]''
                 else ''['' @ FormatUint (SessionID cjSession) 10 @ ''-'' @ take 6 secret @ '']'')))"

text \<open>
  The identifier as the specification words it: the first 12 hexadecimal characters of
  the shared secret once keys exist, six zeros before.
\<close>

definition spec_IDString :: "ConjureSession \<Rightarrow> string" where
  "spec_IDString cjSession =
     (case Keys cjSession of
        None \<Rightarrow> ''['' @ decimal (unat (SessionID cjSession)) @ ''-000000]''
      | Some ks \<Rightarrow>
         (case SharedSecret ks of
            None \<Rightarrow> ''['' @ decimal (unat (SessionID cjSession)) @ ''-000000]''
          | Some sharedSecret \<Rightarrow>
              ''['' @ decimal (unat (SessionID cjSession)) @ ''-''
                @ take 12 (hex_Encode sharedSecret) @ '']''))"

section \<open>\<^verbatim>\<open>conjureHMAC\<close>\<close>

definition conjureHMAC :: "byte list \<Rightarrow> string \<Rightarrow> byte list" where
  "conjureHMAC key str = hmac_sha256 key (bytes_of str)"

section \<open>\<^verbatim>\<open>SelectDecoys\<close>\<close>

text \<open>
  \<^verbatim>\<open>Assets()\<close> is a process-wide handle defined outside this file; what the code
  reads from it is a record passed to every function that calls \<^verbatim>\<open>Assets()\<close>.
\<close>

record assets =
  GetV4Decoys :: "TLSDecoySpec option list"
  GetV6Decoys :: "TLSDecoySpec option list"
  GetAllDecoys :: "TLSDecoySpec option list"
  GetGeneration :: u32

text \<open>The \<^verbatim>\<open>switch version\<close> at the head of \<^verbatim>\<open>SelectDecoys\<close>.\<close>

definition allDecoys_of :: "assets \<Rightarrow> nat \<Rightarrow> TLSDecoySpec option list" where
  "allDecoys_of a version =
     (if version = v6 then GetV6Decoys a
      else if version = v4 then GetV4Decoys a
      else if version = both then GetAllDecoys a
      else GetAllDecoys a)"

text \<open>
  The selection loop, from counter \<open>i\<close> with the slice \<open>decoys\<close> filled so far.
  \<open>hmacInt\<close> is assigned twice, as in the source: the first value (from the first eight
  bytes) is overwritten by the second. The index read is guarded as Go guards it.
\<close>

function SelectDecoys_loop ::
  "TLSDecoySpec option list \<Rightarrow> byte list \<Rightarrow> nat \<Rightarrow> nat \<Rightarrow> TLSDecoySpec option list
     \<Rightarrow> TLSDecoySpec option list outcome" where
  "SelectDecoys_loop allDecoys sharedSecret width i decoys =
     (if i < width then
        (let numDecoys = int (length allDecoys);
             macString = ''registrationdecoy'' @ decimal i;
             hmac = conjureHMAC sharedSecret macString;
             hmacInt = big_SetBytes (take 8 hmac);
             hmacInt = big_SetBytes hmac;
             hmacInt = big_Abs hmacInt
         in case big_Mod hmacInt numDecoys of
              Panics p \<Rightarrow> Panics p
            | Hangs \<Rightarrow> Hangs
            | Returns idx \<Rightarrow>
                if nat idx < length allDecoys
                then SelectDecoys_loop allDecoys sharedSecret width (i + 1)
                       (decoys[i := allDecoys ! nat idx])
                else Panics IndexOutOfRange)
      else Returns decoys)"
  by pat_completeness auto
termination
  by (relation "measure (\<lambda>(allDecoys, sharedSecret, width, i, decoys). width - i)") auto

declare SelectDecoys_loop.simps [simp del]

definition SelectDecoys ::
  "assets \<Rightarrow> byte list \<Rightarrow> nat \<Rightarrow> nat \<Rightarrow> TLSDecoySpec option list outcome" where
  "SelectDecoys a sharedSecret version width =
     (let allDecoys = allDecoys_of a version;
          decoys = replicate width None
      in SelectDecoys_loop allDecoys sharedSecret width 0 decoys)"

text \<open>
  The selection as the specification words it: for each \<open>i\<close> below \<open>width\<close> the HMAC of
  \<^verbatim>\<open>"registrationdecoy"\<close> followed by the decimal \<open>i\<close>, read as a big-endian unsigned
  integer, absolute value, reduced modulo the size of the pool.
\<close>

definition spec_index :: "byte list \<Rightarrow> nat \<Rightarrow> nat \<Rightarrow> nat" where
  "spec_index shared_secret n i =
     nat (\<bar>big_SetBytes (hmac_sha256 shared_secret (bytes_of (''registrationdecoy'' @ decimal i)))\<bar>
          mod int n)"

definition spec_select :: "TLSDecoySpec option list \<Rightarrow> byte list \<Rightarrow> nat \<Rightarrow> TLSDecoySpec option list" where
  "spec_select pool shared_secret width =
     map (\<lambda>i. pool ! spec_index shared_secret (length pool) i) [0..<width]"

section \<open>\<^verbatim>\<open>ConjureReg.Connect\<close> and \<^verbatim>\<open>ConjureSession.connect\<close>\<close>

text \<open>
  The network is an input: \<open>dial\<close> is what \<^verbatim>\<open>DialContext\<close> to
  \<^verbatim>\<open>phantom:443\<close> returned, an error or a connection (the context and its randomised
  deadline only bear on that result). The value of a call is the pair the Go function
  returns together with the byte strings handed to \<^verbatim>\<open>conn.Write\<close>, in order (the
  code ignores what \<^verbatim>\<open>Write\<close> returns).
\<close>

definition Connect ::
  "ConjureReg \<Rightarrow> goerror + conn \<Rightarrow> ((conn option \<times> goerror option) \<times> byte list list) outcome" where
  "Connect reg dial =
     (case phantom reg of
        None \<Rightarrow> Panics NilDereference
      | Some ip \<Rightarrow>
         (case dial of
            Inl err \<Rightarrow> Returns ((None, Some err), [])
          | Inr c \<Rightarrow>
              if transport reg = MinTransport then
                (case keys reg of
                   None \<Rightarrow> Panics NilDereference
                 | Some ks \<Rightarrow>
                     (let connectTag = conjureHMAC (bytes (SharedSecret ks)) ''MinTrasportHMACString''
                      in Returns ((None, None), [connectTag])))
              else if transport reg = Obfs4Transport then
                Returns ((None, Some (ErrorString ''connect not yet implemented'')), [])
              else
                (case keys reg of
                   None \<Rightarrow> Panics NilDereference
                 | Some ks \<Rightarrow>
                     (let connectTag = conjureHMAC (bytes (SharedSecret ks)) ''MinTrasportHMACString''
                      in Returns ((None, None), [connectTag])))))"

definition connect ::
  "ConjureSession \<Rightarrow> goerror + conn \<Rightarrow> ((conn option \<times> goerror option) \<times> byte list list) outcome" where
  "connect cjSession dial =
     (case Phantom' cjSession of
        None \<Rightarrow> Panics NilDereference
      | Some ip \<Rightarrow>
         (case dial of
            Inl err \<Rightarrow> Returns ((None, Some err), [])
          | Inr c \<Rightarrow>
              if Transport cjSession = MinTransport then
                (case Keys cjSession of
                   None \<Rightarrow> Panics NilDereference
                 | Some ks \<Rightarrow>
                     (let connectTag = conjureHMAC (bytes (SharedSecret ks)) ''MinTrasportHMACString''
                      in Returns ((Some c, None), [connectTag])))
              else if Transport cjSession = Obfs4Transport then
                Returns ((None, Some (ErrorString ''connect not yet implemented'')), [])
              else if Transport cjSession = NullTransport then
                Returns ((Some c, None), [])
              else
                (case Keys cjSession of
                   None \<Rightarrow> Panics NilDereference
                 | Some ks \<Rightarrow>
                     (let connectTag = conjureHMAC (bytes (SharedSecret ks)) ''MinTrasportHMACString''
                      in Returns ((Some c, None), [connectTag])))))"

section \<open>\<^verbatim>\<open>ConjureSession.register\<close>\<close>

text \<open>
  The test of the drain loop: a non-nil error whose dynamic type is \<^verbatim>\<open>RegError\<close> and
  whose code is \<^verbatim>\<open>Unreachable\<close>.
\<close>

definition isUnreachable :: "goerror option \<Rightarrow> bool" where
  "isUnreachable err =
     (case err of
        Some (RegErrorVal dialErr) \<Rightarrow> code dialErr = Unreachable
      | _ \<Rightarrow> False)"

text \<open>
  The loop \<^verbatim>\<open>for err := range dialErrors\<close>. The channel is never closed, so the loop
  leaves only through a \<^verbatim>\<open>break\<close>; the list is what the \<^verbatim>\<open>send\<close> tasks post, in
  the order of arrival, and a receive from the exhausted list blocks for ever (\<open>None\<close>).
  The result is the final \<^verbatim>\<open>unreachableCount\<close> and the results that were not
  received.
\<close>

fun drain :: "nat \<Rightarrow> nat \<Rightarrow> goerror option list \<Rightarrow> (nat \<times> goerror option list) option" where
  "drain width unreachableCount [] = None"
| "drain width unreachableCount (err # rest) =
     (if isUnreachable err then
        (let unreachableCount = unreachableCount + 1
         in if unreachableCount < width then drain width unreachableCount rest
            else Some (unreachableCount, rest))
      else Some (unreachableCount, rest))"

text \<open>
  \<^verbatim>\<open>SelectPhantom\<close> builds on \<^verbatim>\<open>newDDIpSelector\<close>, which is defined outside this
  file: it is a parameter returning the pair \<^verbatim>\<open>(*net.IP, error)\<close>.

  The \<^verbatim>\<open>send\<close> tasks run beside the drain loop on the one registration
  \<^verbatim>\<open>reg\<close>: each stores its timings in \<^verbatim>\<open>reg.stats\<close>
  (\<^verbatim>\<open>setTCPToDecoy\<close>, \<^verbatim>\<open>setTLSToDecoy\<close>) before it posts its result. What they
  have stored when \<^verbatim>\<open>register\<close> returns is an input like the results:
  \<open>sendStats\<close>, the content of \<^verbatim>\<open>reg.stats\<close> at that moment.

  The value of \<open>register\<close> is the returned pair, the session as the call leaves it,
  and the posted results it did not wait for.
\<close>

definition register ::
  "assets \<Rightarrow> (byte list \<Rightarrow> bool \<Rightarrow> IP option \<times> goerror option) \<Rightarrow> SessionStats
     \<Rightarrow> ConjureSession \<Rightarrow> goerror option list
     \<Rightarrow> ((ConjureReg option \<times> goerror option) \<times> ConjureSession \<times> goerror option list) outcome" where
  "register a SelectPhantom sendStats cjSession dialErrors =
     (case Keys cjSession of
        None \<Rightarrow> Panics NilDereference
      | Some ks \<Rightarrow>
         (case V6Support cjSession of
            None \<Rightarrow> Panics NilDereference
          | Some v6s \<Rightarrow>
             (case SelectDecoys a (bytes (SharedSecret ks)) (include' v6s) (Width cjSession) of
                Panics p \<Rightarrow> Panics p
              | Hangs \<Rightarrow> Hangs
              | Returns decoys \<Rightarrow>
                 (let cjSession = cjSession\<lparr>RegDecoys := decoys\<rparr>;
                      (ph, err) = SelectPhantom (ConjureSeed ks) (support v6s);
                      cjSession = cjSession\<lparr>Phantom' := ph\<rparr>
                  in if err \<noteq> None \<or> Phantom' cjSession = None
                     then Returns ((None, err), cjSession, dialErrors)
                     else
                       (let reg = \<lparr> seed = [], sessionIDStr = IDString cjSession,
                                    phantom = Phantom' cjSession, useProxyHeader = False,
                                    covertAddress = CovertAddress cjSession, phantomSNI = [],
                                    v6Support = support v6s, transport = 0,
                                    stats = Some \<lparr> TcpToDecoy = None, TlsToDecoy = None \<rparr>,
                                    keys = Keys cjSession \<rparr>;
                            width = length (RegDecoys cjSession)
                        in case drain width 0 dialErrors of
                             None \<Rightarrow> Hangs
                           | Some (unreachableCount, rest) \<Rightarrow>
                               (let reg = reg\<lparr>stats := Some sendStats\<rparr>
                                in if unreachableCount = width
                                   then Returns ((None, Some (RegErrorPtr (RegError Unreachable
                                           ''All decoys failed to register -- Dial Unreachable''))),
                                         cjSession, rest)
                                   else Returns ((Some reg, None), cjSession, rest)))))))"

section \<open>\<^verbatim>\<open>generateVSP\<close>, \<^verbatim>\<open>generateFSP\<close>, \<^verbatim>\<open>createRequest\<close>\<close>

text \<open>
  \<^verbatim>\<open>pb.ClientToStation\<close>, with the fields \<^verbatim>\<open>generateVSP\<close> sets (prefixed, since
  two of the names are fields of the session too).
\<close>

record ClientToStation =
  pb_CovertAddress :: "string option"
  pb_DecoyListGeneration :: "u32 option"
  pb_V6Support :: "bool option"
  pb_MaskedDecoyServerName :: "string option"
  pb_Padding :: "byte list"

text \<open>
  What \<^verbatim>\<open>createRequest\<close> and its helpers use from outside this file: the protobuf
  library (\<^verbatim>\<open>proto.Size\<close>, \<^verbatim>\<open>proto.Marshal\<close>), and of the package
  \<^verbatim>\<open>aesGcmEncrypt\<close>, the constants \<^verbatim>\<open>AES_GCM_TAG_SIZE\<close>,
  \<^verbatim>\<open>default_flags\<close> and \<^verbatim>\<open>tdFlagProxyHeader\<close>,
  \<^verbatim>\<open>generateHTTPRequestBeginning\<close> and \<^verbatim>\<open>reverseEncrypt\<close>. They are
  parameters; what a theorem needs of them is among its hypotheses.
\<close>

record extern =
  proto_Size :: "ClientToStation \<Rightarrow> nat"
  proto_Marshal :: "ClientToStation \<Rightarrow> goerror + byte list"
  aesGcmEncrypt :: "byte list \<Rightarrow> byte list \<Rightarrow> byte list \<Rightarrow> goerror + byte list"
  AES_GCM_TAG_SIZE :: nat
  default_flags :: byte
  tdFlagProxyHeader :: byte
  generateHTTPRequestBeginning :: "string \<Rightarrow> byte list"
  reverseEncrypt :: "byte list \<Rightarrow> byte list \<Rightarrow> byte list"

text \<open>The message \<^verbatim>\<open>generateVSP\<close> builds before it pads.\<close>

definition initProto_of :: "assets \<Rightarrow> ConjureReg \<Rightarrow> ClientToStation" where
  "initProto_of a reg =
     (let covert = (if length (covertAddress reg) > 0 then Some (covertAddress reg) else None);
          currentGen = GetGeneration a;
          initProto = \<lparr> pb_CovertAddress = covert, pb_DecoyListGeneration = Some currentGen,
                        pb_V6Support = Some (v6Support reg), pb_MaskedDecoyServerName = None,
                        pb_Padding = [] \<rparr>;
          initProto = (if length (phantomSNI reg) > 0
                       then initProto\<lparr>pb_MaskedDecoyServerName := Some (phantomSNI reg)\<rparr>
                       else initProto)
      in initProto\<lparr>pb_V6Support := Some (v6Support reg)\<rparr>)"

text \<open>
  The padding loop, with \<^verbatim>\<open>proto.Size\<close> and \<^verbatim>\<open>AES_GCM_TAG_SIZE\<close> as arguments.
  Whether it ends depends on \<^verbatim>\<open>proto.Size\<close>, so it is a partial function:
  \<open>None\<close> when no amount of padding reaches the alignment.
\<close>

partial_function (option) pad_loop ::
  "(ClientToStation \<Rightarrow> nat) \<Rightarrow> nat \<Rightarrow> ClientToStation \<Rightarrow> ClientToStation option" where
  "pad_loop Size tagSize initProto =
     (if (Size initProto + tagSize) mod 3 \<noteq> 0
      then pad_loop Size tagSize (initProto\<lparr>pb_Padding := pb_Padding initProto @ [0]\<rparr>)
      else Some initProto)"

declare pad_loop.simps [code]

definition generateVSP :: "extern \<Rightarrow> assets \<Rightarrow> ConjureReg \<Rightarrow> (goerror + byte list) outcome" where
  "generateVSP x a reg =
     (case pad_loop (proto_Size x) (AES_GCM_TAG_SIZE x) (initProto_of a reg) of
        None \<Rightarrow> Hangs
      | Some initProto \<Rightarrow> Returns (proto_Marshal x initProto))"

definition generateFSP :: "extern \<Rightarrow> ConjureReg \<Rightarrow> 16 word \<Rightarrow> byte list" where
  "generateFSP x reg espSize =
     (let buf = replicate 6 0;
          buf = buf[0 := ucast (drop_bit 8 espSize), 1 := ucast espSize];
          flags = default_flags x;
          flags = (if useProxyHeader reg then flags OR tdFlagProxyHeader x else flags)
      in buf[2 := flags])"

text \<open>
  What \<^verbatim>\<open>createRequest\<close> does to the outside, in order: a call of the AEAD
  (plaintext, key, nonce) and a request for outbound keystream on the TLS connection,
  the only use it makes of \<^verbatim>\<open>tlsConn\<close>.
\<close>

datatype event = Seal "byte list" "byte list" "byte list" | OutKeystream nat

text \<open>
  \<^verbatim>\<open>createRequest\<close> up to the assembly of \<^verbatim>\<open>tag\<close> (the code before
  \<^verbatim>\<open>generateHTTPRequestBeginning\<close>): the tag or the error returned, and the events.
\<close>

definition createRequest_tag ::
  "extern \<Rightarrow> assets \<Rightarrow> ConjureReg \<Rightarrow> ((goerror + byte list) \<times> event list) outcome" where
  "createRequest_tag x a reg =
     (case generateVSP x a reg of
        Hangs \<Rightarrow> Hangs
      | Panics p \<Rightarrow> Panics p
      | Returns (Inl err) \<Rightarrow> Returns (Inl err, [])
      | Returns (Inr vsp) \<Rightarrow>
          if length vsp > unat (NOT (0 :: 16 word))
          then Returns (Inl (ErrorString (''Variable-Size Payload exceeds ''
                                          @ decimal (unat (NOT (0 :: 16 word))))), [])
          else
            (case keys reg of
               None \<Rightarrow> Panics NilDereference
             | Some ks \<Rightarrow>
                (case aesGcmEncrypt x vsp (VspKey ks) (VspIv ks) of
                   Inl err \<Rightarrow> Returns (Inl err, [Seal vsp (VspKey ks) (VspIv ks)])
                 | Inr encryptedVsp \<Rightarrow>
                    (let fsp = generateFSP x reg (of_nat (length encryptedVsp))
                     in case aesGcmEncrypt x fsp (FspKey ks) (FspIv ks) of
                          Inl err \<Rightarrow>
                            Returns (Inl err, [Seal vsp (VspKey ks) (VspIv ks),
                                               Seal fsp (FspKey ks) (FspIv ks)])
                        | Inr encryptedFsp \<Rightarrow>
                            (let tag = encryptedVsp @ Representative ks;
                                 tag = tag @ encryptedFsp
                             in Returns (Inr tag, [Seal vsp (VspKey ks) (VspIv ks),
                                                   Seal fsp (FspKey ks) (FspIv ks)]))))))"

text \<open>The nil-safe getter \<^verbatim>\<open>decoy.GetHostname()\<close>.\<close>

definition GetHostname :: "TLSDecoySpec option \<Rightarrow> string" where
  "GetHostname decoy = (case decoy of None \<Rightarrow> [] | Some d \<Rightarrow> Hostname d)"

text \<open>
  The whole of \<^verbatim>\<open>createRequest\<close>; \<open>tlsConn\<close> is \<^verbatim>\<open>tlsConn.GetOutKeystream\<close>.
\<close>

definition createRequest ::
  "extern \<Rightarrow> assets \<Rightarrow> ConjureReg \<Rightarrow> (nat \<Rightarrow> goerror + byte list) \<Rightarrow> TLSDecoySpec option
     \<Rightarrow> ((goerror + byte list) \<times> event list) outcome" where
  "createRequest x a reg tlsConn decoy =
     (case createRequest_tag x a reg of
        Hangs \<Rightarrow> Hangs
      | Panics p \<Rightarrow> Panics p
      | Returns (Inl err, evs) \<Rightarrow> Returns (Inl err, evs)
      | Returns (Inr tag, evs) \<Rightarrow>
         (let httpRequest = generateHTTPRequestBeginning x (GetHostname decoy);
              keystreamOffset = length httpRequest;
              keystreamSize = (length tag div 3 + 1) * 4 + keystreamOffset
          in case tlsConn keystreamSize of
               Inl err \<Rightarrow> Returns (Inl err, evs @ [OutKeystream keystreamSize])
             | Inr wholeKeystream \<Rightarrow>
                 if keystreamOffset > length wholeKeystream then Panics SliceOutOfRange
                 else
                   (let keystreamAtTag = drop keystreamOffset wholeKeystream;
                        httpRequest = httpRequest @ reverseEncrypt x tag keystreamAtTag;
                        httpRequest = httpRequest @ [0x0d, 0x0a, 0x0d, 0x0a]
                    in Returns (Inr httpRequest, evs @ [OutKeystream keystreamSize]))))"


section \<open>Example values\<close>

text \<open>A session with identifier 7 whose shared secret starts \<^verbatim>\<open>01 23 45 67 89 ab cd ef\<close>.\<close>

definition keys_ex :: sharedKeys where
  "keys_ex = \<lparr> SharedSecret = Some [0x01, 0x23, 0x45, 0x67, 0x89, 0xab, 0xcd, 0xef],
               Representative = replicate 32 0, FspKey = replicate 16 0, FspIv = replicate 12 0,
               VspKey = replicate 16 0, VspIv = replicate 12 0,
               NewMasterSecret = replicate 48 0, ConjureSeed = replicate 16 0 \<rparr>"

definition session_ex :: ConjureSession where
  "session_ex = \<lparr> Keys = Some keys_ex, Width = 1,
                  V6Support = Some \<lparr> support = False, include' = v4 \<rparr>,
                  UseProxyHeader = True, SessionID = 7, RegDecoys = [], Phantom' = None,
                  Transport = NullTransport, CovertAddress = ''example.com:443'',
                  sessionStats = None \<rparr>"

definition session_nokeys :: ConjureSession where
  "session_nokeys = session_ex\<lparr>Keys := None, SessionID := 8\<rparr>"

definition decoy_ex :: TLSDecoySpec where
  "decoy_ex = \<lparr> Hostname = ''decoy.example'', IpAddrStr = ''192.0.2.1:443'' \<rparr>"

text \<open>Assets with one decoy, and assets with none.\<close>

definition assets_ex :: assets where
  "assets_ex = \<lparr> GetV4Decoys = [Some decoy_ex], GetV6Decoys = [],
                 GetAllDecoys = [Some decoy_ex], GetGeneration = 1 \<rparr>"

definition assets_empty :: assets where
  "assets_empty = \<lparr> GetV4Decoys = [], GetV6Decoys = [], GetAllDecoys = [], GetGeneration = 1 \<rparr>"

text \<open>Assets with three decoys, and the example session with width 3.\<close>

definition decoy_b :: TLSDecoySpec where
  "decoy_b = \<lparr> Hostname = ''b.example'', IpAddrStr = ''192.0.2.2:443'' \<rparr>"

definition decoy_c :: TLSDecoySpec where
  "decoy_c = \<lparr> Hostname = ''c.example'', IpAddrStr = ''192.0.2.3:443'' \<rparr>"

definition assets_three :: assets where
  "assets_three = \<lparr> GetV4Decoys = [Some decoy_ex, Some decoy_b, Some decoy_c], GetV6Decoys = [],
                    GetAllDecoys = [Some decoy_ex, Some decoy_b, Some decoy_c],
                    GetGeneration = 1 \<rparr>"

definition session_three :: ConjureSession where
  "session_three = session_ex\<lparr>Width := 3\<rparr>"

text \<open>A result of \<^verbatim>\<open>send\<close> whose dial met an unreachable network.\<close>

definition unreachable_ex :: "goerror option" where
  "unreachable_ex = Some (RegErrorVal (RegError Unreachable ''connect: network is unreachable''))"

text \<open>A phantom selector that always answers \<^verbatim>\<open>192.122.190.7\<close>.\<close>

definition selectPhantom_ex :: "byte list \<Rightarrow> bool \<Rightarrow> IP option \<times> goerror option" where
  "selectPhantom_ex sd v6ok = (Some [192, 122, 190, 7], None)"

text \<open>Timings stored by a task that reached the decoy in 42 ms and finished TLS in 87 ms.\<close>

definition sendStats_ex :: SessionStats where
  "sendStats_ex = \<lparr> TcpToDecoy = Some 42, TlsToDecoy = Some 87 \<rparr>"

text \<open>What \<^verbatim>\<open>register\<close> makes of the example session.\<close>

definition registered_ex :: ConjureReg where
  "registered_ex = \<lparr> seed = [], sessionIDStr = IDString session_ex,
                      phantom = Some [192, 122, 190, 7], useProxyHeader = False,
                      covertAddress = ''example.com:443'', phantomSNI = [],
                      v6Support = False, transport = 0,
                      stats = Some sendStats_ex,
                      keys = Some keys_ex \<rparr>"

text \<open>The same registration with the Null transport, and with a covert address of 70000 bytes.\<close>

definition reg_null :: ConjureReg where
  "reg_null = registered_ex\<lparr>transport := NullTransport\<rparr>"


text \<open>
  Stand-ins for the outside functions, of the right shape only: a serialiser that writes
  the covert address, three bytes for the other fields and the padding, and an AEAD
  that appends 16 bytes.
\<close>

definition marshal_ex :: "ClientToStation \<Rightarrow> byte list" where
  "marshal_ex m = (case pb_CovertAddress m of None \<Rightarrow> [] | Some c \<Rightarrow> bytes_of c)
                  @ [0x10, 0x01, 0xb0] @ pb_Padding m"

definition extern_ex :: extern where
  "extern_ex = \<lparr> proto_Size = (\<lambda>m. length (marshal_ex m)),
                 proto_Marshal = (\<lambda>m. Inr (marshal_ex m)),
                 aesGcmEncrypt = (\<lambda>p k iv. Inr (p @ replicate 16 0)),
                 AES_GCM_TAG_SIZE = 16, default_flags = 0, tdFlagProxyHeader = 2,
                 generateHTTPRequestBeginning = (\<lambda>h. bytes_of (''GET / HTTP/1.1'' @ h)),
                 reverseEncrypt = (\<lambda>tag ks. tag) \<rparr>"

section \<open>Facts about the library functions\<close>

lemma length_hex_Encode: "length (hex_Encode src) = 2 * length src"
  by (induction src) (simp_all add: hex_Encode_def)

lemma FormatUint_decimal: "FormatUint i 10 = decimal (unat i)"
  by (simp add: FormatUint_def decimal_def)

lemma decimal_7: "decimal 7 = ''7''"
  by (simp add: decimal_def nat_digits.simps digit_char_def)

lemma hex_Encode_example:
  "hex_Encode [0x01, 0x23, 0x45, 0x67, 0x89, 0xab, 0xcd, 0xef] = ''0123456789abcdef''"
  by (simp add: hex_Encode_def digit_char_def drop_bit_eq_div)

lemma length_put_be32: "length (put_be32 w) = 4"
  by (simp add: put_be32_def)

lemma length_sha_out: "length (sha_out st) = 32"
  by (induction st rule: sha_out.induct) (simp add: length_put_be32)

lemma length_sha256: "length (sha256 m) = 32"
  by (simp add: sha256_def Let_def length_sha_out)

lemma length_hmac_sha256: "length (hmac_sha256 key m) = 32"
  by (simp add: hmac_sha256_def Let_def length_sha256)

lemma length_conjureHMAC: "length (conjureHMAC key str) = 32"
  by (simp add: conjureHMAC_def length_hmac_sha256)

lemma big_SetBytes_nonneg_aux:
  "0 \<le> acc \<Longrightarrow> 0 \<le> foldl (\<lambda>acc b. 256 * acc + uint (b :: byte)) acc buf"
  by (induction buf arbitrary: acc) simp_all

lemma big_SetBytes_nonneg: "0 \<le> big_SetBytes buf"
  by (simp add: big_SetBytes_def big_SetBytes_nonneg_aux)

section \<open>Two values of the HMAC\<close>

text \<open>
  The tags of \<^verbatim>\<open>"registrationdecoy0"\<close> and \<^verbatim>\<open>"registrationdecoy1"\<close> under the
  shared secret of the example keys, evaluated on the functions above: the inner hash,
  the outer hash, and the HMAC they make.
\<close>

lemma hmac_inner_0:
  "sha256 (map (\<lambda>b. b XOR 0x36) ([0x01, 0x23, 0x45, 0x67, 0x89, 0xab, 0xcd, 0xef] @ replicate (64 - length [0x01, 0x23, 0x45, 0x67, 0x89, 0xab, 0xcd, 0xef]) 0)
           @ bytes_of ''registrationdecoy0'') =
     [0x42, 0x85, 0x20, 0x14, 0xd1, 0xf4, 0xa5, 0x99, 0xc0, 0xca, 0x55, 0x85, 0xe4, 0x3c, 0x55, 0x6e,
     0x82, 0x1d, 0xbe, 0x83, 0xcf, 0xae, 0x48, 0x8e, 0x6a, 0x29, 0x1c, 0x1d, 0x2e, 0xbf, 0xb2, 0x6b]"
  by code_simp

lemma hmac_outer_0:
  "sha256 (map (\<lambda>b. b XOR 0x5c) ([0x01, 0x23, 0x45, 0x67, 0x89, 0xab, 0xcd, 0xef] @ replicate (64 - length [0x01, 0x23, 0x45, 0x67, 0x89, 0xab, 0xcd, 0xef]) 0)
           @ [0x42, 0x85, 0x20, 0x14, 0xd1, 0xf4, 0xa5, 0x99, 0xc0, 0xca, 0x55, 0x85, 0xe4, 0x3c, 0x55, 0x6e,
             0x82, 0x1d, 0xbe, 0x83, 0xcf, 0xae, 0x48, 0x8e, 0x6a, 0x29, 0x1c, 0x1d, 0x2e, 0xbf, 0xb2, 0x6b]) =
     [0xad, 0x2b, 0xb9, 0xb3, 0x36, 0x07, 0x8a, 0x86, 0xbc, 0xf5, 0x9a, 0x54, 0xe1, 0x6b, 0xba, 0xfa,
     0x4a, 0x11, 0xe0, 0xf0, 0x1a, 0x25, 0xdd, 0x65, 0x09, 0x39, 0x2d, 0xa5, 0x54, 0x75, 0xb4, 0x24]"
  by code_simp

lemma hmac_decoy_0:
  "hmac_sha256 [0x01, 0x23, 0x45, 0x67, 0x89, 0xab, 0xcd, 0xef] (bytes_of ''registrationdecoy0'') =
     [0xad, 0x2b, 0xb9, 0xb3, 0x36, 0x07, 0x8a, 0x86, 0xbc, 0xf5, 0x9a, 0x54, 0xe1, 0x6b, 0xba, 0xfa,
     0x4a, 0x11, 0xe0, 0xf0, 0x1a, 0x25, 0xdd, 0x65, 0x09, 0x39, 0x2d, 0xa5, 0x54, 0x75, 0xb4, 0x24]"
proof -
  have "\<not> length ([0x01, 0x23, 0x45, 0x67, 0x89, 0xab, 0xcd, 0xef] :: byte list) > 64" by simp
  then show ?thesis
    by (simp only: hmac_sha256_def Let_def if_False hmac_inner_0 hmac_outer_0)
qed

lemma spec_index_0:
  "spec_index [0x01, 0x23, 0x45, 0x67, 0x89, 0xab, 0xcd, 0xef] 3 0 = 1"
proof -
  have d: "''registrationdecoy'' @ decimal 0 = ''registrationdecoy0''"
    by (simp add: decimal_def nat_digits.simps digit_char_def)
  have e: "hmac_sha256 [0x01, 0x23, 0x45, 0x67, 0x89, 0xab, 0xcd, 0xef]
             (bytes_of (''registrationdecoy'' @ decimal 0)) =
          [0xad, 0x2b, 0xb9, 0xb3, 0x36, 0x07, 0x8a, 0x86, 0xbc, 0xf5, 0x9a, 0x54, 0xe1, 0x6b, 0xba, 0xfa,
          0x4a, 0x11, 0xe0, 0xf0, 0x1a, 0x25, 0xdd, 0x65, 0x09, 0x39, 0x2d, 0xa5, 0x54, 0x75, 0xb4, 0x24]"
    by (simp only: d hmac_decoy_0)
  have m: "\<bar>big_SetBytes
          [0xad, 0x2b, 0xb9, 0xb3, 0x36, 0x07, 0x8a, 0x86, 0xbc, 0xf5, 0x9a, 0x54, 0xe1, 0x6b, 0xba, 0xfa,
          0x4a, 0x11, 0xe0, 0xf0, 0x1a, 0x25, 0xdd, 0x65, 0x09, 0x39, 0x2d, 0xa5, 0x54, 0x75, 0xb4, 0x24]\<bar> mod 3 = 1"
    by code_simp
  show ?thesis
    unfolding spec_index_def e using m by simp
qed

lemma hmac_inner_1:
  "sha256 (map (\<lambda>b. b XOR 0x36) ([0x01, 0x23, 0x45, 0x67, 0x89, 0xab, 0xcd, 0xef] @ replicate (64 - length [0x01, 0x23, 0x45, 0x67, 0x89, 0xab, 0xcd, 0xef]) 0)
           @ bytes_of ''registrationdecoy1'') =
     [0x8b, 0xd7, 0xa1, 0xaf, 0x7f, 0x93, 0x07, 0x0e, 0x89, 0xca, 0x9a, 0xa1, 0x62, 0x53, 0x72, 0xb9,
     0xd7, 0xec, 0xaa, 0x1e, 0x74, 0x39, 0xaa, 0xb7, 0x95, 0x72, 0x7d, 0x76, 0xc0, 0x37, 0x16, 0x2c]"
  by code_simp

lemma hmac_outer_1:
  "sha256 (map (\<lambda>b. b XOR 0x5c) ([0x01, 0x23, 0x45, 0x67, 0x89, 0xab, 0xcd, 0xef] @ replicate (64 - length [0x01, 0x23, 0x45, 0x67, 0x89, 0xab, 0xcd, 0xef]) 0)
           @ [0x8b, 0xd7, 0xa1, 0xaf, 0x7f, 0x93, 0x07, 0x0e, 0x89, 0xca, 0x9a, 0xa1, 0x62, 0x53, 0x72, 0xb9,
             0xd7, 0xec, 0xaa, 0x1e, 0x74, 0x39, 0xaa, 0xb7, 0x95, 0x72, 0x7d, 0x76, 0xc0, 0x37, 0x16, 0x2c]) =
     [0xea, 0x35, 0x2e, 0xda, 0x72, 0x79, 0x6e, 0x45, 0x50, 0x21, 0xdf, 0xbd, 0x9b, 0xa7, 0xe8, 0xf5,
     0x0a, 0xb9, 0xa7, 0xb9, 0xce, 0x62, 0xe1, 0x85, 0x05, 0x31, 0x41, 0x67, 0x77, 0x8d, 0xc4, 0x6e]"
  by code_simp

lemma hmac_decoy_1:
  "hmac_sha256 [0x01, 0x23, 0x45, 0x67, 0x89, 0xab, 0xcd, 0xef] (bytes_of ''registrationdecoy1'') =
     [0xea, 0x35, 0x2e, 0xda, 0x72, 0x79, 0x6e, 0x45, 0x50, 0x21, 0xdf, 0xbd, 0x9b, 0xa7, 0xe8, 0xf5,
     0x0a, 0xb9, 0xa7, 0xb9, 0xce, 0x62, 0xe1, 0x85, 0x05, 0x31, 0x41, 0x67, 0x77, 0x8d, 0xc4, 0x6e]"
proof -
  have "\<not> length ([0x01, 0x23, 0x45, 0x67, 0x89, 0xab, 0xcd, 0xef] :: byte list) > 64" by simp
  then show ?thesis
    by (simp only: hmac_sha256_def Let_def if_False hmac_inner_1 hmac_outer_1)
qed

lemma spec_index_1:
  "spec_index [0x01, 0x23, 0x45, 0x67, 0x89, 0xab, 0xcd, 0xef] 3 1 = 2"
proof -
  have d: "''registrationdecoy'' @ decimal 1 = ''registrationdecoy1''"
    by (simp add: decimal_def nat_digits.simps digit_char_def)
  have e: "hmac_sha256 [0x01, 0x23, 0x45, 0x67, 0x89, 0xab, 0xcd, 0xef]
             (bytes_of (''registrationdecoy'' @ decimal 1)) =
          [0xea, 0x35, 0x2e, 0xda, 0x72, 0x79, 0x6e, 0x45, 0x50, 0x21, 0xdf, 0xbd, 0x9b, 0xa7, 0xe8, 0xf5,
          0x0a, 0xb9, 0xa7, 0xb9, 0xce, 0x62, 0xe1, 0x85, 0x05, 0x31, 0x41, 0x67, 0x77, 0x8d, 0xc4, 0x6e]"
    by (simp only: d hmac_decoy_1)
  have m: "\<bar>big_SetBytes
          [0xea, 0x35, 0x2e, 0xda, 0x72, 0x79, 0x6e, 0x45, 0x50, 0x21, 0xdf, 0xbd, 0x9b, 0xa7, 0xe8, 0xf5,
          0x0a, 0xb9, 0xa7, 0xb9, 0xce, 0x62, 0xe1, 0x85, 0x05, 0x31, 0x41, 0x67, 0x77, 0x8d, 0xc4, 0x6e]\<bar> mod 3 = 2"
    by code_simp
  show ?thesis
    unfolding spec_index_def e using m by simp
qed

section \<open>The session identifier\<close>

text \<open>
  C9, as the code has it. \<^verbatim>\<open>IDString\<close> prints the decimal session identifier and the
  first six hexadecimal characters of the shared secret (\<^verbatim>\<open>secret[:6]\<close>), not twelve;
  it prints six zeros when the keys or the shared secret are nil, and also when the
  shared secret has fewer than three bytes (the guard \<^verbatim>\<open>n < 6\<close>).
\<close>

theorem IDString_six_hex:
  "(\<forall>ks ss. Keys s = Some ks \<and> SharedSecret ks = Some ss \<and> 3 \<le> length ss \<longrightarrow>
      IDString s = ''['' @ decimal (unat (SessionID s)) @ ''-'' @ take 6 (hex_Encode ss) @ '']'')
   \<and> (Keys s = None \<or> (\<exists>ks. Keys s = Some ks \<and> (SharedSecret ks = None
          \<or> (\<exists>ss. SharedSecret ks = Some ss \<and> length ss < 3))) \<longrightarrow>
      IDString s = ''['' @ decimal (unat (SessionID s)) @ ''-000000]'')"
  by (auto simp: IDString_def FormatUint_decimal length_hex_Encode Let_def split: option.splits)

text \<open>
  The statement of C9 with twelve characters fails on the example session: the code
  prints \<^verbatim>\<open>[7-012345]\<close> where the specification's wording gives
  \<^verbatim>\<open>[7-0123456789ab]\<close>.
\<close>

theorem IDString_twelve_hex_counterexample:
  "IDString session_ex = ''[7-012345]'' \<and> spec_IDString session_ex = ''[7-0123456789ab]''
   \<and> IDString session_ex \<noteq> spec_IDString session_ex"
  by (simp add: IDString_def spec_IDString_def session_ex_def keys_ex_def FormatUint_decimal
        decimal_7 hex_Encode_example Let_def)

section \<open>Decoy selection\<close>

lemma spec_index_less: "0 < n \<Longrightarrow> spec_index ss n i < n"
  by (simp add: spec_index_def nat_less_iff)

lemma length_spec_select: "length (spec_select pool ss width) = width"
  by (simp add: spec_select_def)

text \<open>One turn of the loop on a pool that is not empty.\<close>

lemma SelectDecoys_loop_step:
  assumes "allDecoys \<noteq> []" and "i < width"
  shows "SelectDecoys_loop allDecoys ss width i decoys =
         SelectDecoys_loop allDecoys ss width (Suc i)
           (decoys[i := allDecoys ! spec_index ss (length allDecoys) i])"
  using assms
  by (subst SelectDecoys_loop.simps)
     (simp add: Let_def big_Mod_def big_Abs_def conjureHMAC_def spec_index_def nat_less_iff)

text \<open>The loop invariant: entries below \<open>i\<close> are kept, the others are the picks.\<close>

lemma SelectDecoys_loop_spec:
  assumes "allDecoys \<noteq> []"
  shows "i \<le> width \<Longrightarrow> length decoys = width \<Longrightarrow>
         SelectDecoys_loop allDecoys ss width i decoys =
         Returns (take i decoys
                  @ map (\<lambda>j. allDecoys ! spec_index ss (length allDecoys) j) [i..<width])"
proof (induction "width - i" arbitrary: i decoys)
  case 0
  then have "i = width" by simp
  with 0 show ?case by (subst SelectDecoys_loop.simps) simp
next
  case (Suc k)
  then have lt: "i < width" by simp
  let ?v = "allDecoys ! spec_index ss (length allDecoys) i"
  have "SelectDecoys_loop allDecoys ss width i decoys =
        SelectDecoys_loop allDecoys ss width (Suc i) (decoys[i := ?v])"
    by (rule SelectDecoys_loop_step [OF assms lt])
  also have "\<dots> = Returns (take (Suc i) (decoys[i := ?v])
                 @ map (\<lambda>j. allDecoys ! spec_index ss (length allDecoys) j) [Suc i..<width])"
    using Suc lt by (intro Suc.hyps(1)) simp_all
  also have "take (Suc i) (decoys[i := ?v]) = take i decoys @ [?v]"
    using lt Suc.prems by (simp add: take_Suc_conv_app_nth)
  finally show ?case using lt by (simp add: upt_conv_Cons)
qed

lemma SelectDecoys_nonempty:
  assumes "allDecoys_of a version \<noteq> []"
  shows "SelectDecoys a ss version width = Returns (spec_select (allDecoys_of a version) ss width)"
  using SelectDecoys_loop_spec [OF assms, of 0 width "replicate width None" ss]
  by (simp add: SelectDecoys_def spec_select_def)

lemma SelectDecoys_empty_pool:
  assumes "allDecoys_of a version = []" and "0 < width"
  shows "SelectDecoys a ss version width = Panics DivisionByZero"
  using assms
  by (simp add: SelectDecoys_def SelectDecoys_loop.simps [of _ _ _ 0] Let_def big_Mod_def)

lemma SelectDecoys_width_zero: "SelectDecoys a ss version 0 = Returns []"
  by (simp add: SelectDecoys_def SelectDecoys_loop.simps [of _ _ _ 0])

text \<open>
  C6. On a pool that is not empty \<^verbatim>\<open>SelectDecoys\<close> returns, its value is a function of
  the pool, the shared secret and the width alone, and entry \<open>i\<close> is the pool entry
  whose index is the HMAC of \<^verbatim>\<open>"registrationdecoy"\<close> and the decimal \<open>i\<close>, read as a
  big-endian unsigned integer, absolute value, modulo the size of the pool.
\<close>

theorem SelectDecoys_deterministic_pick:
  assumes "allDecoys_of a version \<noteq> []"
  shows "\<exists>ds. SelectDecoys a ss version width = Returns ds
           \<and> ds = spec_select (allDecoys_of a version) ss width
           \<and> length ds = width
           \<and> (\<forall>i<width.
                 ds ! i = allDecoys_of a version !
                   nat (\<bar>big_SetBytes (hmac_sha256 ss (bytes_of (''registrationdecoy'' @ decimal i)))\<bar>
                        mod int (length (allDecoys_of a version)))
                 \<and> nat (\<bar>big_SetBytes (hmac_sha256 ss (bytes_of (''registrationdecoy'' @ decimal i)))\<bar>
                        mod int (length (allDecoys_of a version))) < length (allDecoys_of a version))"
  using assms SelectDecoys_nonempty [OF assms, of ss width]
  by (simp add: spec_select_def spec_index_def nat_less_iff)

section \<open>The phantom connection\<close>

lemma bytes_of_MinTrasportHMACString:
  "bytes_of ''MinTrasportHMACString'' =
     [0x4d, 0x69, 0x6e, 0x54, 0x72, 0x61, 0x73, 0x70, 0x6f, 0x72, 0x74,
      0x48, 0x4d, 0x41, 0x43, 0x53, 0x74, 0x72, 0x69, 0x6e, 0x67]"
  by (simp add: bytes_of_def)

text \<open>
  C3. With the Min transport, or a transport that is neither Null nor Obfs4, a
  successful dial is followed by one write, of the 32 bytes
  HMAC-SHA256(SharedSecret, "MinTrasportHMACString"); the context string is the 21
  bytes spelled out, with the misspelling.
\<close>

theorem Connect_writes_min_tag:
  assumes "phantom reg = Some ip" and "keys reg = Some ks"
    and "transport reg = MinTransport
         \<or> (transport reg \<noteq> NullTransport \<and> transport reg \<noteq> Obfs4Transport)"
  shows "\<exists>r. Connect reg (Inr c) =
           Returns (r, [hmac_sha256 (bytes (SharedSecret ks)) (bytes_of ''MinTrasportHMACString'')])
         \<and> length (hmac_sha256 (bytes (SharedSecret ks)) (bytes_of ''MinTrasportHMACString'')) = 32
         \<and> bytes_of ''MinTrasportHMACString'' =
             [0x4d, 0x69, 0x6e, 0x54, 0x72, 0x61, 0x73, 0x70, 0x6f, 0x72, 0x74,
              0x48, 0x4d, 0x41, 0x43, 0x53, 0x74, 0x72, 0x69, 0x6e, 0x67]"
  using assms
  by (auto simp: Connect_def conjureHMAC_def length_hmac_sha256 MinTransport_def
        Obfs4Transport_def bytes_of_MinTrasportHMACString)

section \<open>Registration\<close>

text \<open>The drain loop when every result is \<^verbatim>\<open>Unreachable\<close>: it reads them all.\<close>

lemma drain_all_unreachable:
  "\<forall>e\<in>set es. isUnreachable e \<Longrightarrow> es \<noteq> [] \<Longrightarrow> cnt + length es = width \<Longrightarrow>
   drain width cnt es = Some (width, [])"
proof (induction es arbitrary: cnt)
  case Nil
  then show ?case by simp
next
  case (Cons e es)
  show ?case
  proof (cases "es = []")
    case True
    with Cons.prems show ?thesis by simp
  next
    case False
    with Cons.prems have "drain width (Suc cnt) es = Some (width, [])"
      by (intro Cons.IH) simp_all
    with Cons.prems False show ?thesis by (cases es) simp_all
  qed
qed

text \<open>Otherwise it stops at the first result that is not.\<close>

lemma drain_first_other:
  "\<not> (\<forall>e\<in>set es. isUnreachable e) \<Longrightarrow> cnt + length es \<le> width \<Longrightarrow>
   drain width cnt es =
     Some (cnt + length (takeWhile isUnreachable es),
           drop (Suc (length (takeWhile isUnreachable es))) es)"
proof (induction es arbitrary: cnt)
  case Nil
  then show ?case by simp
next
  case (Cons e es)
  show ?case
  proof (cases "isUnreachable e")
    case False
    then show ?thesis by simp
  next
    case True
    with Cons.prems have ex: "\<not> (\<forall>e\<in>set es. isUnreachable e)" by simp
    then have "es \<noteq> []" by auto
    with Cons.prems have lt: "Suc cnt < width" by (cases es) simp_all
    from Cons.prems have "Suc cnt + length es \<le> width" by simp
    from Cons.IH [OF ex this] True lt show ?thesis by simp
  qed
qed

lemma takeWhile_less_length:
  "\<not> (\<forall>e\<in>set es. P e) \<Longrightarrow> length (takeWhile P es) < length es"
  by (induction es) auto

lemma IDString_update:
  "IDString (s\<lparr>RegDecoys := ds\<rparr>) = IDString s" "IDString (s\<lparr>Phantom' := p\<rparr>) = IDString s"
  by (simp_all add: IDString_def Let_def split: option.splits)

text \<open>\<^verbatim>\<open>register\<close> once the decoys and the phantom are selected.\<close>

lemma register_to_drain:
  assumes "Keys s = Some ks" and "V6Support s = Some v"
    and "allDecoys_of a (include' v) \<noteq> []"
    and "SelectPhantom (ConjureSeed ks) (support v) = (Some ip, None)"
  shows "register a SelectPhantom sendStats s dialErrors =
     (case drain (Width s) 0 dialErrors of
        None \<Rightarrow> Hangs
      | Some (unreachableCount, rest) \<Rightarrow>
          if unreachableCount = Width s
          then Returns ((None, Some (RegErrorPtr (RegError Unreachable
                  ''All decoys failed to register -- Dial Unreachable''))),
                s\<lparr>RegDecoys := spec_select (allDecoys_of a (include' v)) (bytes (SharedSecret ks)) (Width s),
                   Phantom' := Some ip\<rparr>, rest)
          else Returns ((Some \<lparr> seed = [], sessionIDStr = IDString s,
                                    phantom = Some ip, useProxyHeader = False,
                                    covertAddress = CovertAddress s, phantomSNI = [],
                                    v6Support = support v, transport = 0,
                                    stats = Some sendStats,
                                    keys = Keys s \<rparr>, None),
                s\<lparr>RegDecoys := spec_select (allDecoys_of a (include' v)) (bytes (SharedSecret ks)) (Width s),
                   Phantom' := Some ip\<rparr>, rest))"
  using assms
  by (simp add: register_def SelectDecoys_nonempty length_spec_select IDString_update
           split: option.splits)

text \<open>
  C4. Let the pool for the family be non-empty and the phantom selection succeed, so
  that the \<open>W\<close> registrations are sent, and let \<open>dialErrors\<close> be the \<open>W \<ge> 1\<close>
  results in the order they arrive. Then \<^verbatim>\<open>register\<close> returns; it returns the
  \<^verbatim>\<open>Unreachable\<close> error exactly when all \<open>W\<close> results are \<^verbatim>\<open>Unreachable\<close>
  errors; otherwise it has received only the results up to the first one that is a
  success or another error (the rest is left unread) and returns, with a nil error, a
  registration with the session's keys, phantom, covert address and v6 flag.
\<close>

theorem register_unreachable_iff:
  assumes "Keys s = Some ks" and "V6Support s = Some v"
    and "allDecoys_of a (include' v) \<noteq> []"
    and "SelectPhantom (ConjureSeed ks) (support v) = (Some ip, None)"
    and "1 \<le> Width s" and "length dialErrors = Width s"
  shows "\<exists>reg err s' rest.
           register a SelectPhantom sendStats s dialErrors = Returns ((reg, err), s', rest)
         \<and> ((\<exists>m. err = Some (RegErrorPtr (RegError Unreachable m)))
              \<longleftrightarrow> (\<forall>e\<in>set dialErrors. isUnreachable e))
         \<and> ((\<forall>e\<in>set dialErrors. isUnreachable e) \<longrightarrow> reg = None \<and> rest = [])
         \<and> (\<not> (\<forall>e\<in>set dialErrors. isUnreachable e) \<longrightarrow>
              err = None
            \<and> rest = drop (Suc (length (takeWhile isUnreachable dialErrors))) dialErrors
            \<and> (\<exists>r. reg = Some r \<and> keys r = Keys s \<and> phantom r = Some ip
                   \<and> phantom r = Phantom' s' \<and> covertAddress r = CovertAddress s
                   \<and> v6Support r = support v))"
proof (cases "\<forall>e\<in>set dialErrors. isUnreachable e")
  case True
  from assms have "dialErrors \<noteq> []" by auto
  with True assms have "drain (Width s) 0 dialErrors = Some (Width s, [])"
    by (intro drain_all_unreachable) simp_all
  with True show ?thesis
    by (simp add: register_to_drain [where SelectPhantom = SelectPhantom, OF assms(1-4)])
next
  case False
  let ?k = "length (takeWhile isUnreachable dialErrors)"
  from False assms have d: "drain (Width s) 0 dialErrors =
      Some (0 + ?k, drop (Suc ?k) dialErrors)"
    by (intro drain_first_other) simp_all
  from False have "?k < length dialErrors" by (rule takeWhile_less_length)
  with assms have "?k \<noteq> Width s" by simp
  with False d show ?thesis
    by (simp add: register_to_drain [where SelectPhantom = SelectPhantom, OF assms(1-4)])
qed

lemma generateFSP_bytes:
  "generateFSP x reg espSize =
     [ucast (drop_bit 8 espSize), ucast espSize,
      (if useProxyHeader reg then default_flags x OR tdFlagProxyHeader x else default_flags x),
      0, 0, 0]"
proof -
  have "replicate 6 (0 :: byte) = [0, 0, 0, 0, 0, 0]"
    by (simp add: eval_nat_numeral)
  then show ?thesis
    by (simp add: generateFSP_def Let_def eval_nat_numeral)
qed

text \<open>
  C10. A registration returned by \<^verbatim>\<open>register\<close> has \<^verbatim>\<open>transport\<close> and
  \<^verbatim>\<open>useProxyHeader\<close> at their zero values, whatever the session's \<^verbatim>\<open>Transport\<close>
  and \<^verbatim>\<open>UseProxyHeader\<close>: the flag byte of its FSP is \<^verbatim>\<open>default_flags\<close> alone,
  and \<^verbatim>\<open>Connect\<close> on it takes the \<^verbatim>\<open>MinTransport\<close> case and writes the Min tag.
\<close>

theorem register_zero_transport:
  assumes "register a SelectPhantom sendStats s dialErrors = Returns ((Some reg, err), s', rest)"
  shows "transport reg = MinTransport \<and> useProxyHeader reg = False
       \<and> (\<exists>ks ip. keys reg = Some ks \<and> phantom reg = Some ip
            \<and> (\<forall>c. Connect reg (Inr c) =
                  Returns ((None, None), [conjureHMAC (bytes (SharedSecret ks)) ''MinTrasportHMACString''])))
       \<and> (\<forall>x espSize. generateFSP x reg espSize =
            [ucast (drop_bit 8 espSize), ucast espSize, default_flags x, 0, 0, 0])"
  using assms
  by (auto simp: register_def Let_def MinTransport_def Connect_def generateFSP_bytes
       split: option.splits outcome.splits prod.splits if_splits)

lemma allDecoys_of_ex: "allDecoys_of assets_ex v4 = [Some decoy_ex]"
  by (simp add: allDecoys_of_def assets_ex_def v4_def v6_def)

lemma allDecoys_of_three:
  "allDecoys_of assets_three v4 = [Some decoy_ex, Some decoy_b, Some decoy_c]"
  by (simp add: allDecoys_of_def assets_three_def v4_def v6_def)

lemma spec_select_singleton: "spec_select [d] ss (Suc 0) = [d]"
  by (simp add: spec_select_def spec_index_def)

lemma isUnreachable_simps:
  "isUnreachable None = False"
  "isUnreachable (Some (RegErrorVal (RegError c m))) = (c = Unreachable)"
  "isUnreachable (Some (ErrorString t)) = False"
  by (simp_all add: isUnreachable_def)

lemma register_example_success:
  "register assets_ex selectPhantom_ex sendStats_ex session_ex [None] =
     Returns ((Some registered_ex, None),
              session_ex\<lparr>RegDecoys := [Some decoy_ex], Phantom' := Some [192, 122, 190, 7]\<rparr>, [])"
proof -
  have k: "Keys session_ex = Some keys_ex"
    and v: "V6Support session_ex = Some \<lparr>support = False, include' = v4\<rparr>"
    and w: "Width session_ex = 1" and c: "CovertAddress session_ex = ''example.com:443''"
    by (simp_all add: session_ex_def)
  have p: "allDecoys_of assets_ex (include' \<lparr>support = False, include' = v4\<rparr>) \<noteq> []"
    by (simp add: allDecoys_of_ex)
  have sp: "selectPhantom_ex (ConjureSeed keys_ex) (support \<lparr>support = False, include' = v4\<rparr>)
              = (Some [192, 122, 190, 7], None)"
    by (simp add: selectPhantom_ex_def)
  show ?thesis
    by (simp add: register_to_drain [where SelectPhantom = selectPhantom_ex, OF k v p sp]
          w c k isUnreachable_simps allDecoys_of_ex spec_select_singleton registered_ex_def)
qed

lemma register_example_unreachable:
  "register assets_ex selectPhantom_ex sendStats_ex session_ex
       [Some (RegErrorVal (RegError Unreachable ''connect: network is unreachable''))] =
     Returns ((None, Some (RegErrorPtr (RegError Unreachable
                  ''All decoys failed to register -- Dial Unreachable''))),
              session_ex\<lparr>RegDecoys := [Some decoy_ex], Phantom' := Some [192, 122, 190, 7]\<rparr>, [])"
proof -
  have k: "Keys session_ex = Some keys_ex"
    and v: "V6Support session_ex = Some \<lparr>support = False, include' = v4\<rparr>"
    and w: "Width session_ex = 1"
    by (simp_all add: session_ex_def)
  have p: "allDecoys_of assets_ex (include' \<lparr>support = False, include' = v4\<rparr>) \<noteq> []"
    by (simp add: allDecoys_of_ex)
  have sp: "selectPhantom_ex (ConjureSeed keys_ex) (support \<lparr>support = False, include' = v4\<rparr>)
              = (Some [192, 122, 190, 7], None)"
    by (simp add: selectPhantom_ex_def)
  show ?thesis
    by (simp add: register_to_drain [where SelectPhantom = selectPhantom_ex, OF k v p sp]
          w isUnreachable_simps allDecoys_of_ex spec_select_singleton)
qed

text \<open>
  C4 on the session of width 3 with three decoys. When the results arrive as unreachable,
  success, unreachable, the registration is returned after the second and the third is
  left unread; when all three are unreachable the error is \<^verbatim>\<open>Unreachable\<close>.
\<close>

theorem register_unreachable_iff_witness:
  "Keys session_three = Some keys_ex
   \<and> V6Support session_three = Some \<lparr>support = False, include' = v4\<rparr>
   \<and> allDecoys_of assets_three v4 \<noteq> []
   \<and> selectPhantom_ex (ConjureSeed keys_ex) False = (Some [192, 122, 190, 7], None)
   \<and> 1 \<le> Width session_three
   \<and> length [unreachable_ex, None, unreachable_ex] = Width session_three
   \<and> (\<exists>r s'. register assets_three selectPhantom_ex sendStats_ex session_three
                  [unreachable_ex, None, unreachable_ex]
                = Returns ((Some r, None), s', [unreachable_ex])
          \<and> keys r = Keys session_three \<and> phantom r = Some [192, 122, 190, 7]
          \<and> covertAddress r = CovertAddress session_three \<and> v6Support r = False)
   \<and> (\<exists>s' m. register assets_three selectPhantom_ex sendStats_ex session_three
                  [unreachable_ex, unreachable_ex, unreachable_ex]
                = Returns ((None, Some (RegErrorPtr (RegError Unreachable m))), s', []))"
proof -
  have k: "Keys session_three = Some keys_ex"
    and v: "V6Support session_three = Some \<lparr>support = False, include' = v4\<rparr>"
    and w: "1 \<le> Width session_three"
    and l: "length [unreachable_ex, None, unreachable_ex] = Width session_three"
    and l': "length [unreachable_ex, unreachable_ex, unreachable_ex] = Width session_three"
    by (simp_all add: session_three_def session_ex_def)
  have p: "allDecoys_of assets_three (include' \<lparr>support = False, include' = v4\<rparr>) \<noteq> []"
    by (simp add: allDecoys_of_three)
  have sp: "selectPhantom_ex (ConjureSeed keys_ex) (support \<lparr>support = False, include' = v4\<rparr>)
              = (Some [192, 122, 190, 7], None)"
    by (simp add: selectPhantom_ex_def)
  have u: "isUnreachable unreachable_ex" "\<not> isUnreachable None"
    by (simp_all add: unreachable_ex_def isUnreachable_simps)
  from register_unreachable_iff [where SelectPhantom = selectPhantom_ex and sendStats = sendStats_ex,
         OF k v p sp w l]
  have a: "\<exists>r s'. register assets_three selectPhantom_ex sendStats_ex session_three
                  [unreachable_ex, None, unreachable_ex]
                = Returns ((Some r, None), s', [unreachable_ex])
          \<and> keys r = Keys session_three \<and> phantom r = Some [192, 122, 190, 7]
          \<and> covertAddress r = CovertAddress session_three \<and> v6Support r = False"
    using u by auto
  from register_unreachable_iff [where SelectPhantom = selectPhantom_ex and sendStats = sendStats_ex,
         OF k v p sp w l']
  have b: "\<exists>s' m. register assets_three selectPhantom_ex sendStats_ex session_three
                  [unreachable_ex, unreachable_ex, unreachable_ex]
                = Returns ((None, Some (RegErrorPtr (RegError Unreachable m))), s', [])"
    using u by auto
  from a b k v w l p sp show ?thesis
    by (simp add: allDecoys_of_three)
qed

theorem register_zero_transport_witness:
  "register assets_ex selectPhantom_ex sendStats_ex session_ex [None] =
     Returns ((Some registered_ex, None),
              session_ex\<lparr>RegDecoys := [Some decoy_ex], Phantom' := Some [192, 122, 190, 7]\<rparr>, [])
   \<and> Transport session_ex = NullTransport \<and> UseProxyHeader session_ex
   \<and> transport registered_ex = MinTransport \<and> useProxyHeader registered_ex = False
   \<and> generateFSP extern_ex registered_ex 0x0123 = [0x01, 0x23, default_flags extern_ex, 0, 0, 0]"
  using register_zero_transport [OF register_example_success] register_example_success
  by (simp add: session_ex_def)

section \<open>The registration request\<close>

lemma unat_max_u16: "unat (- 1 :: 16 word) = 65535"
  by (simp add: unsigned_minus_1_eq_mask mask_eq_exp_minus_1)


text \<open>When the padding loop returns, the size it leaves is aligned.\<close>

lemma pad_loop_aligned:
  assumes "pad_loop Size tagSize m = Some m'"
  shows "(Size m' + tagSize) mod 3 = 0"
  by (rule pad_loop.raw_induct [where P = "\<lambda>S t m m'. (S m' + t) mod 3 = 0", OF _ assms])
     (auto split: if_splits)

text \<open>It returns as soon as some amount of padding reaches the alignment.\<close>

lemma pad_loop_terminates:
  "(Size (m\<lparr>pb_Padding := pb_Padding m @ replicate n 0\<rparr>) + tagSize) mod 3 = 0
   \<Longrightarrow> \<exists>m'. pad_loop Size tagSize m = Some m'"
proof (induction n arbitrary: m)
  case 0
  then show ?case by (subst pad_loop.simps) simp
next
  case (Suc n)
  show ?case
  proof (cases "(Size m + tagSize) mod 3 = 0")
    case True
    then show ?thesis by (subst pad_loop.simps) simp
  next
    case False
    from Suc.prems
    have "(Size ((m\<lparr>pb_Padding := pb_Padding m @ [0]\<rparr>)
              \<lparr>pb_Padding := pb_Padding (m\<lparr>pb_Padding := pb_Padding m @ [0]\<rparr>) @ replicate n 0\<rparr>)
           + tagSize) mod 3 = 0"
      by (simp add: replicate_app_Cons_same)
    from Suc.IH [OF this] False show ?thesis by (subst pad_loop.simps) simp
  qed
qed

lemma generateVSP_returns:
  assumes "(proto_Size x ((initProto_of a reg)
               \<lparr>pb_Padding := pb_Padding (initProto_of a reg) @ replicate n 0\<rparr>)
            + AES_GCM_TAG_SIZE x) mod 3 = 0"
  shows "\<exists>r. generateVSP x a reg = Returns r"
  using assms pad_loop_terminates [of "proto_Size x" "initProto_of a reg" n "AES_GCM_TAG_SIZE x"]
  by (auto simp: generateVSP_def)

lemma generateVSP_aligned:
  assumes "\<forall>m b. proto_Marshal x m = Inr b \<longrightarrow> length b = proto_Size x m"
    and "generateVSP x a reg = Returns (Inr vsp)"
  shows "(length vsp + AES_GCM_TAG_SIZE x) mod 3 = 0"
  using assms
  by (auto simp: generateVSP_def split: option.splits dest: pad_loop_aligned)

lemma length_generateFSP: "length (generateFSP x reg espSize) = 6"
  by (simp add: generateFSP_bytes)

text \<open>
  C7. Let \<^verbatim>\<open>proto.Marshal\<close> produce as many bytes as \<^verbatim>\<open>proto.Size\<close> says, let
  \<^verbatim>\<open>aesGcmEncrypt\<close> add \<^verbatim>\<open>AES_GCM_TAG_SIZE\<close> = 16 bytes, and let the representative
  have 32 bytes. When the VSP serialises to at most 0xFFFF bytes and both seals succeed,
  \<^verbatim>\<open>createRequest\<close> assembles the tag \<open>enc_VSP || Representative || enc_FSP\<close>, with
  22 bytes of \<open>enc_FSP\<close> and a length divisible by 3, the padded VSP being such that
  its length plus the AEAD tag size is divisible by 3.
\<close>

theorem createRequest_tag_layout:
  assumes "\<forall>m b. proto_Marshal x m = Inr b \<longrightarrow> length b = proto_Size x m"
    and "\<forall>p k iv c. aesGcmEncrypt x p k iv = Inr c \<longrightarrow> length c = length p + AES_GCM_TAG_SIZE x"
    and "AES_GCM_TAG_SIZE x = 16"
    and "keys reg = Some ks" and "length (Representative ks) = 32"
    and "generateVSP x a reg = Returns (Inr vsp)" and "length vsp \<le> 0xFFFF"
    and "aesGcmEncrypt x vsp (VspKey ks) (VspIv ks) = Inr encVSP"
    and "aesGcmEncrypt x (generateFSP x reg (of_nat (length encVSP))) (FspKey ks) (FspIv ks)
           = Inr encFSP"
  shows "\<exists>evs. createRequest_tag x a reg = Returns (Inr (encVSP @ Representative ks @ encFSP), evs)
       \<and> length (Representative ks) = 32 \<and> length encFSP = 22
       \<and> (length vsp + AES_GCM_TAG_SIZE x) mod 3 = 0
       \<and> length (encVSP @ Representative ks @ encFSP) mod 3 = 0"
proof -
  have al: "(length vsp + 16) mod 3 = 0"
    using generateVSP_aligned [OF assms(1) assms(6)] assms(3) by simp
  have l1: "length encVSP = length vsp + 16"
    using assms(2) assms(8) assms(3) by fastforce
  have l2: "length encFSP = 6 + 16"
    using assms(2) assms(9) assms(3) length_generateFSP by fastforce
  have "length (encVSP @ Representative ks @ encFSP) mod 3 = 0"
    using al l1 l2 assms(5) by simp presburger
  moreover have "\<exists>evs. createRequest_tag x a reg
                   = Returns (Inr (encVSP @ Representative ks @ encFSP), evs)"
    using assms(4,6,7,8,9) by (simp add: createRequest_tag_def unat_max_u16 Let_def)
  ultimately show ?thesis using al l2 assms(3,5) by simp
qed

text \<open>The tag is what \<^verbatim>\<open>createRequest\<close> embeds in the request.\<close>

lemma createRequest_embeds_tag:
  assumes "createRequest_tag x a reg = Returns (Inr tag, evs)"
    and "tlsConn ((length tag div 3 + 1) * 4
                  + length (generateHTTPRequestBeginning x (GetHostname decoy))) = Inr ws"
    and "length (generateHTTPRequestBeginning x (GetHostname decoy)) \<le> length ws"
  shows "\<exists>evs'. createRequest x a reg tlsConn decoy =
           Returns (Inr (generateHTTPRequestBeginning x (GetHostname decoy)
                         @ reverseEncrypt x tag
                             (drop (length (generateHTTPRequestBeginning x (GetHostname decoy))) ws)
                         @ [0x0d, 0x0a, 0x0d, 0x0a]), evs')"
  using assms by (simp add: createRequest_def Let_def)


lemma length_bytes_of: "length (bytes_of s) = length s"
  by (simp add: bytes_of_def)

lemma initProto_of_ex:
  "initProto_of assets_ex registered_ex =
     \<lparr> pb_CovertAddress = Some ''example.com:443'', pb_DecoyListGeneration = Some 1,
       pb_V6Support = Some False, pb_MaskedDecoyServerName = None, pb_Padding = [] \<rparr>"
  by (simp add: initProto_of_def registered_ex_def assets_ex_def Let_def)

lemma generateVSP_ex:
  "generateVSP extern_ex assets_ex registered_ex =
     Returns (Inr (bytes_of ''example.com:443'' @ [0x10, 0x01, 0xb0, 0, 0]))"
  by (simp add: generateVSP_def initProto_of_ex extern_ex_def marshal_ex_def pad_loop.simps
        bytes_of_def)




theorem createRequest_tag_layout_witness:
  "AES_GCM_TAG_SIZE extern_ex = 16 \<and> keys registered_ex = Some keys_ex
   \<and> length (Representative keys_ex) = 32
   \<and> generateVSP extern_ex assets_ex registered_ex =
       Returns (Inr (bytes_of ''example.com:443'' @ [0x10, 0x01, 0xb0, 0, 0]))
   \<and> length (bytes_of ''example.com:443'' @ [0x10, 0x01, 0xb0, 0, 0]) \<le> 0xFFFF
   \<and> (\<exists>evs. createRequest_tag extern_ex assets_ex registered_ex =
         Returns (Inr ((bytes_of ''example.com:443'' @ [0x10, 0x01, 0xb0, 0, 0] @ replicate 16 0)
                       @ Representative keys_ex
                       @ (generateFSP extern_ex registered_ex 36 @ replicate 16 0)), evs))
   \<and> length ((bytes_of ''example.com:443'' @ [0x10, 0x01, 0xb0, 0, 0] @ replicate 16 0)
             @ Representative keys_ex
             @ (generateFSP extern_ex registered_ex 36 @ replicate 16 0)) mod 3 = 0"
proof -
  have m: "\<forall>m b. proto_Marshal extern_ex m = Inr b \<longrightarrow> length b = proto_Size extern_ex m"
    by (auto simp: extern_ex_def)
  have e: "\<forall>p k iv c. aesGcmEncrypt extern_ex p k iv = Inr c
             \<longrightarrow> length c = length p + AES_GCM_TAG_SIZE extern_ex"
    by (auto simp: extern_ex_def)
  have t: "AES_GCM_TAG_SIZE extern_ex = 16" by (simp add: extern_ex_def)
  have k: "keys registered_ex = Some keys_ex" by (simp add: registered_ex_def)
  have r: "length (Representative keys_ex) = 32" by (simp add: keys_ex_def)
  have l: "length (bytes_of ''example.com:443'' @ [0x10, 0x01, 0xb0, 0, 0]) \<le> 0xFFFF"
    by (simp add: bytes_of_def)
  have s1: "aesGcmEncrypt extern_ex (bytes_of ''example.com:443'' @ [0x10, 0x01, 0xb0, 0, 0])
              (VspKey keys_ex) (VspIv keys_ex)
              = Inr (bytes_of ''example.com:443'' @ [0x10, 0x01, 0xb0, 0, 0] @ replicate 16 0)"
    by (simp add: extern_ex_def)
  have n: "of_nat (length (bytes_of ''example.com:443'' @ [0x10, 0x01, 0xb0, 0, 0] @ replicate 16 0))
             = (36 :: 16 word)"
    by (simp add: bytes_of_def)
  have s2: "aesGcmEncrypt extern_ex
              (generateFSP extern_ex registered_ex
                 (of_nat (length (bytes_of ''example.com:443'' @ [0x10, 0x01, 0xb0, 0, 0] @ replicate 16 0))))
              (FspKey keys_ex) (FspIv keys_ex)
              = Inr (generateFSP extern_ex registered_ex 36 @ replicate 16 0)"
    by (simp only: n) (simp add: extern_ex_def)
  from createRequest_tag_layout [OF m e t k r generateVSP_ex l s1 s2] t k r generateVSP_ex l
  show ?thesis by (simp add: length_bytes_of length_generateFSP)
qed

section \<open>Witnesses and evaluations at concrete inputs\<close>

theorem IDString_six_hex_witness:
  "Keys session_ex = Some keys_ex
   \<and> SharedSecret keys_ex = Some [0x01, 0x23, 0x45, 0x67, 0x89, 0xab, 0xcd, 0xef]
   \<and> 3 \<le> length [0x01, 0x23, 0x45, 0x67, 0x89, 0xab, 0xcd, 0xef :: byte]
   \<and> IDString session_ex = ''['' @ decimal (unat (SessionID session_ex)) @ ''-''
        @ take 6 (hex_Encode [0x01, 0x23, 0x45, 0x67, 0x89, 0xab, 0xcd, 0xef]) @ '']''
   \<and> Keys session_nokeys = None
   \<and> IDString session_nokeys = ''['' @ decimal (unat (SessionID session_nokeys)) @ ''-000000]''"
proof -
  have k: "Keys session_ex = Some keys_ex" by (simp add: session_ex_def)
  have s: "SharedSecret keys_ex = Some [0x01, 0x23, 0x45, 0x67, 0x89, 0xab, 0xcd, 0xef]"
    by (simp add: keys_ex_def)
  have n: "Keys session_nokeys = None" by (simp add: session_nokeys_def)
  from IDString_six_hex [of session_ex] IDString_six_hex [of session_nokeys] k s n
  show ?thesis by simp
qed

text \<open>
  C6 on the assets with three decoys, under the shared secret of the example keys: the
  HMAC of \<^verbatim>\<open>"registrationdecoy0"\<close> is 1 modulo 3 and that of
  \<^verbatim>\<open>"registrationdecoy1"\<close> is 2 modulo 3, so the selection of width 2 is the second
  decoy, then the third.
\<close>

theorem SelectDecoys_deterministic_pick_witness:
  "allDecoys_of assets_three v4 \<noteq> []
   \<and> SelectDecoys assets_three [0x01, 0x23, 0x45, 0x67, 0x89, 0xab, 0xcd, 0xef] v4 2
       = Returns [Some decoy_b, Some decoy_c]"
proof -
  have p: "allDecoys_of assets_three v4 \<noteq> []" by (simp add: allDecoys_of_three)
  have u: "[0..<2] = [0, 1]" by (simp add: upt_rec)
  have l3: "length [Some decoy_ex, Some decoy_b, Some decoy_c] = 3" by simp
  have "spec_select [Some decoy_ex, Some decoy_b, Some decoy_c]
          [0x01, 0x23, 0x45, 0x67, 0x89, 0xab, 0xcd, 0xef] 2
        = [[Some decoy_ex, Some decoy_b, Some decoy_c]
             ! spec_index [0x01, 0x23, 0x45, 0x67, 0x89, 0xab, 0xcd, 0xef] 3 0,
           [Some decoy_ex, Some decoy_b, Some decoy_c]
             ! spec_index [0x01, 0x23, 0x45, 0x67, 0x89, 0xab, 0xcd, 0xef] 3 1]"
    by (simp only: spec_select_def u l3 list.map)
  also have "\<dots> = [[Some decoy_ex, Some decoy_b, Some decoy_c] ! 1,
                   [Some decoy_ex, Some decoy_b, Some decoy_c] ! 2]"
    by (simp only: spec_index_0 spec_index_1)
  also have "\<dots> = [Some decoy_b, Some decoy_c]" by simp
  finally have sel: "spec_select (allDecoys_of assets_three v4)
          [0x01, 0x23, 0x45, 0x67, 0x89, 0xab, 0xcd, 0xef] 2 = [Some decoy_b, Some decoy_c]"
    by (simp only: allDecoys_of_three)
  from SelectDecoys_deterministic_pick
         [OF p, of "[0x01, 0x23, 0x45, 0x67, 0x89, 0xab, 0xcd, 0xef]" 2]
  have "SelectDecoys assets_three [0x01, 0x23, 0x45, 0x67, 0x89, 0xab, 0xcd, 0xef] v4 2
          = Returns (spec_select (allDecoys_of assets_three v4)
                       [0x01, 0x23, 0x45, 0x67, 0x89, 0xab, 0xcd, 0xef] 2)"
    by blast
  with p sel show ?thesis by simp
qed

text \<open>
  C5 fails on the code. On an empty pool and a width of 5, \<^verbatim>\<open>SelectDecoys\<close> does not
  return an empty slice: \<^verbatim>\<open>idx.Mod(hmacInt, numDecoys)\<close> divides by zero in the first
  turn of the loop and the call panics.
\<close>

theorem SelectDecoys_empty_pool_panics:
  "allDecoys_of assets_empty v4 = []
   \<and> SelectDecoys assets_empty [0x01, 0x23] v4 5 = Panics DivisionByZero"
proof -
  have p: "allDecoys_of assets_empty v4 = []"
    by (simp add: allDecoys_of_def assets_empty_def v4_def v6_def)
  then show ?thesis by (simp add: SelectDecoys_empty_pool)
qed

text \<open>C3 on the example registration, whose transport is Min.\<close>

theorem Connect_writes_min_tag_witness:
  "phantom registered_ex = Some [192, 122, 190, 7] \<and> keys registered_ex = Some keys_ex
   \<and> transport registered_ex = MinTransport
   \<and> (\<exists>r. Connect registered_ex (Inr 5) =
          Returns (r, [hmac_sha256 [0x01, 0x23, 0x45, 0x67, 0x89, 0xab, 0xcd, 0xef]
                         (bytes_of ''MinTrasportHMACString'')]))"
proof -
  have p: "phantom registered_ex = Some [192, 122, 190, 7]"
    and k: "keys registered_ex = Some keys_ex"
    and t: "transport registered_ex = MinTransport
            \<or> (transport registered_ex \<noteq> NullTransport \<and> transport registered_ex \<noteq> Obfs4Transport)"
    by (simp_all add: registered_ex_def MinTransport_def)
  have s: "bytes (SharedSecret keys_ex) = [0x01, 0x23, 0x45, 0x67, 0x89, 0xab, 0xcd, 0xef]"
    by (simp add: keys_ex_def bytes_def)
  from Connect_writes_min_tag [OF p k t, of 5] p k
  show ?thesis by (auto simp: s registered_ex_def MinTransport_def)
qed

text \<open>
  \<^verbatim>\<open>ConjureReg.Connect\<close> ends in \<^verbatim>\<open>return nil, nil\<close>: no call of it returns a
  connection.
\<close>

lemma Connect_never_returns_conn:
  "Connect reg dial = Returns ((c, err), written) \<Longrightarrow> c = None"
  by (auto simp: Connect_def Let_def split: option.splits sum.splits if_splits)

text \<open>
  C1 fails on the code. On the example registration (Min transport) and a dial that
  succeeds with connection 5, \<^verbatim>\<open>ConjureReg.Connect\<close> writes the tag and returns
  \<^verbatim>\<open>(nil, nil)\<close>; the session-level \<^verbatim>\<open>connect\<close> returns the connection.
\<close>

theorem Connect_returns_nil_on_success:
  "Connect registered_ex (Inr 5) =
     Returns ((None, None), [conjureHMAC [0x01, 0x23, 0x45, 0x67, 0x89, 0xab, 0xcd, 0xef]
                               ''MinTrasportHMACString''])
   \<and> connect (session_ex\<lparr>Phantom' := Some [192, 122, 190, 7], Transport := MinTransport\<rparr>) (Inr 5) =
     Returns ((Some 5, None), [conjureHMAC [0x01, 0x23, 0x45, 0x67, 0x89, 0xab, 0xcd, 0xef]
                                 ''MinTrasportHMACString''])"
  by (simp add: Connect_def connect_def registered_ex_def session_ex_def keys_ex_def bytes_def
        MinTransport_def)

text \<open>
  C2 fails on the code. With the Null transport \<^verbatim>\<open>ConjureReg.Connect\<close> has no case of
  its own, falls to \<^verbatim>\<open>default\<close> and writes the 32-byte Min tag; the session-level
  \<^verbatim>\<open>connect\<close> has the case and writes nothing.
\<close>

theorem Connect_null_transport_writes_tag:
  "transport reg_null = NullTransport
   \<and> Connect reg_null (Inr 5) =
     Returns ((None, None), [conjureHMAC [0x01, 0x23, 0x45, 0x67, 0x89, 0xab, 0xcd, 0xef]
                               ''MinTrasportHMACString''])
   \<and> length (conjureHMAC [0x01, 0x23, 0x45, 0x67, 0x89, 0xab, 0xcd, 0xef]
                ''MinTrasportHMACString'') = 32
   \<and> Transport session_ex = NullTransport
   \<and> connect (session_ex\<lparr>Phantom' := Some [192, 122, 190, 7]\<rparr>) (Inr 5) =
     Returns ((Some 5, None), [])"
  by (simp add: Connect_def connect_def reg_null_def registered_ex_def session_ex_def keys_ex_def
        bytes_def MinTransport_def NullTransport_def Obfs4Transport_def length_conjureHMAC)

end
